theory Spec2Isabelle
  imports Main "HOL-Library.Word"
begin

section \<open>Common Go notions\<close>

text \<open>
  A Go call either returns or panics. A nil pointer is \<open>None\<close>; where the source
  dereferences a pointer without a check, the model has the \<open>Panic\<close> branch.
\<close>

datatype 'a outcome = Panic | Return 'a

datatype error = GoError string

fun error_msg :: "error \<Rightarrow> string" where
  "error_msg (GoError s) = s"

section \<open>Put options (db/keyval/put\_options.go)\<close>

text \<open>\<open>time.Duration\<close> is an \<open>int64\<close>.\<close>

type_synonym Duration = "64 word"

record WithTTLOpt =
  TTL :: Duration

text \<open>
  \<open>WithTTL\<close> returns \<open>&WithTTLOpt{TTL}\<close>: a pointer to a newly allocated object.
  The objects of type \<open>WithTTLOpt\<close> live in a heap, a list indexed by address; the
  pointer is nil or the address of a cell.
\<close>

datatype opt_ptr = NilPtr | Ptr nat

type_synonym opt_heap = "WithTTLOpt list"

fun deref :: "opt_heap \<Rightarrow> opt_ptr \<Rightarrow> WithTTLOpt option" where
  "deref h NilPtr = None"
| "deref h (Ptr a) = (if a < length h then Some (h ! a) else None)"

definition WithTTL :: "Duration \<Rightarrow> opt_heap \<Rightarrow> opt_ptr \<times> opt_heap" where
  "WithTTL d h = (Ptr (length h), h @ [\<lparr>TTL = d\<rparr>])"

section \<open>Consul plugin (db/keyval/consul/plugin.go)\<close>

subsection \<open>Data\<close>

definition healthCheckProbeKey :: string where
  "healthCheckProbeKey = ''/probe-consul-connection''"

record Config =
  Address :: string
  ReconnectResync :: bool

text \<open>
  \<open>api.Config\<close> of the Consul client library: the address and, standing for the
  fields the plugin never touches, the scheme and the datacenter.
\<close>

record api_Config =
  api_Address :: string
  api_Scheme :: string
  api_Datacenter :: string

text \<open>The client encapsulation returned by \<open>NewClient\<close>, built from a client configuration.\<close>

record Client =
  client_config :: api_Config

datatype Serializer = SerializerJSON | SerializerProto

record ProtoWrapper =
  pw_broker :: "Client option"
  pw_serializer :: Serializer

datatype statuscheck_handle = StatusCheckAgent

datatype resync_Plugin = ResyncPlugin

datatype PluginState = statuscheck_Init | statuscheck_OK | statuscheck_Error

type_synonym chan_id = nat

text \<open>
  A channel value has a direction. \<open>make\<close> gives a channel usable in both
  directions; the field \<open>initNotifChan\<close> has the type \<open><-chan func()\<close>: a value
  of that type can be received from, and can neither be sent on nor closed.
\<close>

datatype chan_dir = BothDir | RecvOnly

datatype recv_chan = RecvChan chan_id

text \<open>What \<open>safeclose.Close\<close> is handed as \<open>interface{}\<close>: here, a channel with its direction.\<close>

datatype closable = ChanObj chan_dir chan_id

fun as_closable :: "recv_chan \<Rightarrow> closable" where
  "as_closable (RecvChan c) = ChanObj RecvOnly c"

text \<open>
  The struct \<open>Plugin\<close>, with the dependencies of \<open>Deps\<close> that the code tests for nil
  (\<open>StatusCheck\<close>, \<open>Resync\<close>) as options. The logger and the configuration source
  of \<open>PluginInfraDeps\<close> are taken as injected.
\<close>

record Plugin =
  PluginName :: string
  StatusCheck :: "statuscheck_handle option"
  Resync :: "resync_Plugin option"
  disabled :: bool
  connected :: bool
  client :: "Client option"
  protoWrapper :: "ProtoWrapper option"
  reconnectResync :: bool
  lastConnErr :: "error option"
  initNotifChan :: "recv_chan option"

text \<open>
  What the plugin acts on besides its own fields: the channels (each closed or not, with
  the number of values sent on it so far), the number of calls of \<open>NewClient\<close>, the
  number of invocations of the resync trigger, the plugin names that have a probe
  registered with the health aggregator, and the log.
\<close>

record chan_state =
  closed :: bool
  delivered :: nat

datatype level = Info | Warn | Err

record world =
  plugin :: Plugin
  chans :: "chan_id \<Rightarrow> chan_state"
  next_chan :: chan_id
  NewClient_calls :: nat
  resync_calls :: nat
  registered :: "string list"
  logged :: "(level \<times> string) list"

text \<open>
  The answers of the collaborators during \<open>Init\<close>:
  \<open>PluginConfig.GetValue(&cfg)\<close> fills \<open>cfg\<close> and returns \<open>(found, err)\<close>;
  \<open>api.DefaultConfig()\<close> gives the backend's default client configuration;
  \<open>NewClient\<close> returns \<open>(*Client, error)\<close>.
\<close>

record get_value_result =
  gv_cfg :: Config
  gv_found :: bool
  gv_err :: "error option"

record init_env =
  PluginConfig_GetValue :: get_value_result
  api_DefaultConfig :: api_Config
  NewClient :: "api_Config \<Rightarrow> Client option \<times> error option"

subsection \<open>Helpers: logging, channels\<close>

definition log_msg :: "level \<Rightarrow> string \<Rightarrow> world \<Rightarrow> world" where
  "log_msg l m w = w\<lparr>logged := logged w @ [(l, m)]\<rparr>"

text \<open>\<open>make(chan func())\<close>: a new open channel nothing has been sent on.\<close>

definition make_chan :: "world \<Rightarrow> chan_id \<times> world" where
  "make_chan w =
     (next_chan w,
      w\<lparr>chans := (chans w)(next_chan w := \<lparr>closed = False, delivered = 0\<rparr>),
        next_chan := Suc (next_chan w)\<rparr>)"

subsection \<open>Accessors\<close>

definition Disabled :: "world \<Rightarrow> bool" where
  "Disabled w = disabled (plugin w)"

definition Connected :: "world \<Rightarrow> bool" where
  "Connected w = connected (plugin w)"

definition GetInitNotificationChan :: "world \<Rightarrow> recv_chan option" where
  "GetInitNotificationChan w = initNotifChan (plugin w)"

definition GetPluginName :: "world \<Rightarrow> string" where
  "GetPluginName w = PluginName (plugin w)"

subsection \<open>Configuration\<close>

definition getConfig :: "get_value_result \<Rightarrow> world \<Rightarrow> world \<times> Config option \<times> error option" where
  "getConfig r w =
     (case gv_err r of
        Some e \<Rightarrow> (w, None, Some e)
      | None \<Rightarrow>
          if \<not> gv_found r then
            (let w1 = log_msg Info ''Consul config not found, skip loading this plugin'' w
             in (w1\<lparr>plugin := (plugin w1)\<lparr>disabled := True\<rparr>\<rparr>, None, None))
          else (w, Some (gv_cfg r), None))"

text \<open>
  \<open>ConfigToClient\<close> takes a pointer to a \<open>Config\<close> and reads \<open>cfg.Address\<close>;
  the first argument is what \<open>api.DefaultConfig()\<close> returns.
\<close>

definition ConfigToClient :: "api_Config \<Rightarrow> Config option \<Rightarrow> (api_Config \<times> error option) outcome" where
  "ConfigToClient dflt cfg =
     (case cfg of
        None \<Rightarrow> Panic
      | Some c \<Rightarrow>
          Return (if Address c \<noteq> '''' then dflt\<lparr>api_Address := Address c\<rparr> else dflt, None))"

subsection \<open>Resync trigger\<close>

text \<open>
  Modelled from the spec: the method \<open>DoResync\<close> of \<open>resync.Plugin\<close>
  (datasync/resync), whose source is not among the files verified here. The spec: the resync trigger
  "exposes \<open>DoResync()\<close> with no return value observed by this core; invoking it is
  fire-and-forget from the plugin's perspective". The model counts the invocations on a
  valid receiver.
\<close>

definition resync_DoResync :: "resync_Plugin \<Rightarrow> world \<Rightarrow> world" where
  "resync_DoResync r w = w\<lparr>resync_calls := Suc (resync_calls w)\<rparr>"

text \<open>
  \<open>Plugin.DoResync\<close> calls \<open>plugin.Resync.DoResync()\<close> with no test of
  \<open>plugin.Resync\<close>: on a nil \<open>Resync\<close> the call runs on a nil receiver and panics.
\<close>

definition DoResync :: "world \<Rightarrow> world outcome" where
  "DoResync w =
     (case Resync (plugin w) of
        None \<Rightarrow> Panic
      | Some r \<Rightarrow> Return (resync_DoResync r w))"

subsection \<open>Health probe\<close>

text \<open>
  The closure that \<open>Init\<close> registers with the health aggregator. Its first argument
  is the error returned by \<open>plugin.client.GetValue(healthCheckProbeKey)\<close>, the read of
  the sentinel key: \<open>None\<close> when the read succeeds.
\<close>

definition probe :: "error option \<Rightarrow> world \<Rightarrow> world \<times> PluginState \<times> error option" where
  "probe get_err w =
     (case get_err of
        None \<Rightarrow>
          (let w1 =
             (if reconnectResync (plugin w) \<and> lastConnErr (plugin w) \<noteq> None then
                (let w2 = log_msg Info ''Starting resync after Consul reconnect'' w
                 in case Resync (plugin w2) of
                      Some r \<Rightarrow>
                        (let w3 = resync_DoResync r w2
                         in w3\<lparr>plugin := (plugin w3)\<lparr>lastConnErr := None\<rparr>\<rparr>)
                    | None \<Rightarrow>
                        log_msg Warn
                          ''Expected resync after Consul reconnect could not start beacuse of missing Resync plugin''
                          w2)
              else w)
           in (w1\<lparr>plugin := (plugin w1)\<lparr>connected := True\<rparr>\<rparr>, statuscheck_OK, None))
      | Some e \<Rightarrow>
          (w\<lparr>plugin := (plugin w)\<lparr>lastConnErr := Some e, connected := False\<rparr>\<rparr>,
           statuscheck_Error, Some e))"

subsection \<open>Initialisation\<close>

text \<open>
  \<open>StatusCheck.Register(name, probe)\<close>: the aggregator records the plugin's name with
  its probe, the closure \<open>probe\<close> above.
\<close>

definition statuscheck_Register :: "string \<Rightarrow> world \<Rightarrow> world" where
  "statuscheck_Register name w = w\<lparr>registered := registered w @ [name]\<rparr>"

definition NewProtoWrapperWithSerializer :: "Client option \<Rightarrow> Serializer \<Rightarrow> ProtoWrapper" where
  "NewProtoWrapperWithSerializer c ser = \<lparr>pw_broker = c, pw_serializer = ser\<rparr>"

definition Init :: "init_env \<Rightarrow> world \<Rightarrow> world \<times> error option outcome" where
  "Init env w0 =
     (let (ch, wa) = make_chan w0;
          w1 = wa\<lparr>plugin := (plugin wa)\<lparr>initNotifChan := Some (RecvChan ch)\<rparr>\<rparr>;
          (w2, cfg, err) = getConfig (PluginConfig_GetValue env) w1
      in if err \<noteq> None \<or> disabled (plugin w2) then (w2, Return err)
         else
           (case ConfigToClient (api_DefaultConfig env) cfg of
              Panic \<Rightarrow> (w2, Panic)
            | Return (clientCfg, err1) \<Rightarrow>
                if err1 \<noteq> None then (w2, Return err1)
                else
                  (let (cl, err2) = NewClient env clientCfg;
                       w3 = w2\<lparr>plugin := (plugin w2)\<lparr>client := cl\<rparr>,
                               NewClient_calls := Suc (NewClient_calls w2)\<rparr>
                   in case err2 of
                        Some e \<Rightarrow> (log_msg Err (''Err: '' @ error_msg e) w3, Return (Some e))
                      | None \<Rightarrow>
                          (case cfg of
                             None \<Rightarrow> (w3, Panic)
                           | Some c \<Rightarrow>
                               (let w4 = w3\<lparr>plugin := (plugin w3)
                                           \<lparr>reconnectResync := ReconnectResync c,
                                            protoWrapper :=
                                              Some (NewProtoWrapperWithSerializer
                                                      (client (plugin w3)) SerializerJSON),
                                            connected := True\<rparr>\<rparr>;
                                    w5 = (case StatusCheck (plugin w4) of
                                            Some sc \<Rightarrow> statuscheck_Register (PluginName (plugin w4)) w4
                                          | None \<Rightarrow>
                                              log_msg Warn ''Unable to start status check for consul'' w4)
                                in (w5, Return None))))))"

subsection \<open>Shutdown\<close>

text \<open>
  Modelled from the spec: \<open>safeclose.Close\<close> (utils/safeclose), whose source is
  not among the files verified here. The spec: shutdown is to "release any pending
  notification channel and any backend connection handles", and resource release "must
  tolerate and report, but not escalate, errors from closing already-closed resources".
  So a failed close is reported in the log, no error is returned and no panic leaves
  the call. What can fail is given by the language: a receive-only channel cannot be
  closed, and closing a closed channel panics; in both cases the channel is left as it
  is. An open channel usable in both directions is closed. A nil value is left alone.
\<close>

definition safeclose_Close :: "closable option \<Rightarrow> world \<Rightarrow> world \<times> error option outcome" where
  "safeclose_Close obj w =
     (case obj of
        None \<Rightarrow> (w, Return None)
      | Some (ChanObj dir c) \<Rightarrow>
          if dir = RecvOnly then
            (log_msg Err ''Recovered in safeclose: close of receive-only channel'' w, Return None)
          else if closed (chans w c) then
            (log_msg Err ''Recovered in safeclose: close of closed channel'' w, Return None)
          else (w\<lparr>chans := (chans w)(c := (chans w c)\<lparr>closed := True\<rparr>)\<rparr>, Return None))"

text \<open>
  \<open>Plugin.Close\<close> returns \<open>safeclose.Close(plugin.initNotifChan)\<close>: the only
  argument is the notification channel, with its receive-only type; \<open>plugin.client\<close>
  is not passed.
\<close>

definition Close :: "world \<Rightarrow> world \<times> error option outcome" where
  "Close w = safeclose_Close (map_option as_closable (initNotifChan (plugin w))) w"

subsection \<open>Brokers and watchers\<close>

text \<open>
  Modelled from the spec: \<open>NewBroker\<close> and \<open>NewWatcher\<close> of \<open>kvproto.ProtoWrapper\<close>
  (db/keyval/kvproto), whose source is not among the files verified here. The spec: a broker or watcher
  handle is "a capability scoped to a key prefix"; handles "hold only a reference to the
  plugin's current transport and a prefix, never their own connection".
\<close>

record ProtoBroker =
  broker_prefix :: string
  broker_transport :: "Client option"
  broker_serializer :: Serializer

record ProtoWatcher =
  watcher_prefix :: string
  watcher_transport :: "Client option"
  watcher_serializer :: Serializer

definition kvproto_NewBroker :: "ProtoWrapper \<Rightarrow> string \<Rightarrow> ProtoBroker" where
  "kvproto_NewBroker pw keyPrefix =
     \<lparr>broker_prefix = keyPrefix, broker_transport = pw_broker pw,
      broker_serializer = pw_serializer pw\<rparr>"

definition kvproto_NewWatcher :: "ProtoWrapper \<Rightarrow> string \<Rightarrow> ProtoWatcher" where
  "kvproto_NewWatcher pw keyPrefix =
     \<lparr>watcher_prefix = keyPrefix, watcher_transport = pw_broker pw,
      watcher_serializer = pw_serializer pw\<rparr>"

text \<open>
  The plugin's methods call them on \<open>plugin.protoWrapper\<close>, which is nil until
  \<open>Init\<close> has set it.
\<close>

definition NewBroker :: "string \<Rightarrow> world \<Rightarrow> ProtoBroker outcome" where
  "NewBroker keyPrefix w =
     (case protoWrapper (plugin w) of
        None \<Rightarrow> Panic
      | Some pw \<Rightarrow> Return (kvproto_NewBroker pw keyPrefix))"

definition NewWatcher :: "string \<Rightarrow> world \<Rightarrow> ProtoWatcher outcome" where
  "NewWatcher keyPrefix w =
     (case protoWrapper (plugin w) of
        None \<Rightarrow> Panic
      | Some pw \<Rightarrow> Return (kvproto_NewWatcher pw keyPrefix))"

subsection \<open>The plugin at run time\<close>

text \<open>
  The operations on a plugin once \<open>Init\<close> has returned: the aggregator invoking the
  probe (with the outcome of the sentinel read), and the calls of the exported
  methods. \<open>step\<close> gives the world after one operation, or \<open>Panic\<close>;
  \<open>run\<close> performs a sequence of them and stops at a panic.
\<close>

datatype op =
    OpProbe "error option"
  | OpClose
  | OpDoResync
  | OpNewBroker string
  | OpNewWatcher string
  | OpDisabled
  | OpConnected
  | OpGetInitNotificationChan
  | OpGetPluginName

fun step :: "op \<Rightarrow> world \<Rightarrow> world outcome" where
  "step (OpProbe r) w = Return (fst (probe r w))"
| "step OpClose w = (case snd (Close w) of Panic \<Rightarrow> Panic | Return e \<Rightarrow> Return (fst (Close w)))"
| "step OpDoResync w = DoResync w"
| "step (OpNewBroker p) w = (case NewBroker p w of Panic \<Rightarrow> Panic | Return b \<Rightarrow> Return w)"
| "step (OpNewWatcher p) w = (case NewWatcher p w of Panic \<Rightarrow> Panic | Return b \<Rightarrow> Return w)"
| "step OpDisabled w = Return w"
| "step OpConnected w = Return w"
| "step OpGetInitNotificationChan w = Return w"
| "step OpGetPluginName w = Return w"

fun run :: "op list \<Rightarrow> world \<Rightarrow> world" where
  "run [] w = w"
| "run (a # as) w = (case step a w of Panic \<Rightarrow> w | Return w' \<Rightarrow> run as w')"

subsection \<open>A plugin before initialisation\<close>

text \<open>
  The zero value of \<open>Plugin\<close> with its name and dependencies injected, in a world
  with no channel, no client, no resync and no registration so far.
\<close>

definition new_Plugin :: "string \<Rightarrow> statuscheck_handle option \<Rightarrow> resync_Plugin option \<Rightarrow> Plugin" where
  "new_Plugin name sc rs =
     \<lparr>PluginName = name, StatusCheck = sc, Resync = rs, disabled = False, connected = False,
      client = None, protoWrapper = None, reconnectResync = False, lastConnErr = None,
      initNotifChan = None\<rparr>"

definition new_world :: "Plugin \<Rightarrow> world" where
  "new_world p =
     \<lparr>plugin = p, chans = (\<lambda>c. \<lparr>closed = False, delivered = 0\<rparr>), next_chan = 0,
      NewClient_calls = 0, resync_calls = 0, registered = [], logged = []\<rparr>"

text \<open>Collaborators for concrete runs: a client factory that succeeds and one that fails.\<close>

definition dflt_cfg :: api_Config where
  "dflt_cfg = \<lparr>api_Address = ''127.0.0.1:8500'', api_Scheme = ''http'', api_Datacenter = []\<rparr>"

definition client_ok :: "api_Config \<Rightarrow> Client option \<times> error option" where
  "client_ok c = (Some \<lparr>client_config = c\<rparr>, None)"

definition client_fails :: "api_Config \<Rightarrow> Client option \<times> error option" where
  "client_fails c = (None, Some (GoError ''connection refused''))"

definition env_found :: "bool \<Rightarrow> (api_Config \<Rightarrow> Client option \<times> error option) \<Rightarrow> init_env" where
  "env_found rr nc =
     \<lparr>PluginConfig_GetValue =
        \<lparr>gv_cfg = \<lparr>Address = ''10.0.0.7:8500'', ReconnectResync = rr\<rparr>,
         gv_found = True, gv_err = None\<rparr>,
      api_DefaultConfig = dflt_cfg, NewClient = nc\<rparr>"

definition env_absent :: init_env where
  "env_absent =
     \<lparr>PluginConfig_GetValue =
        \<lparr>gv_cfg = \<lparr>Address = [], ReconnectResync = False\<rparr>,
         gv_found = False, gv_err = None\<rparr>,
      api_DefaultConfig = dflt_cfg, NewClient = client_ok\<rparr>"

text \<open>
  Two reference runs: a plugin whose \<open>Init\<close> succeeded with resync-after-reconnect
  enabled and a health aggregator injected, and the same plugin after one failed probe.
\<close>

definition started_world :: "resync_Plugin option \<Rightarrow> world" where
  "started_world rs =
     fst (Init (env_found True client_ok)
            (new_world (new_Plugin ''consul'' (Some StatusCheckAgent) rs)))"

definition degraded_world :: "resync_Plugin option \<Rightarrow> world" where
  "degraded_world rs = fst (probe (Some (GoError ''timeout'')) (started_world rs))"



section \<open>Properties\<close>

lemmas world_defs = log_msg_def make_chan_def getConfig_def ConfigToClient_def
  resync_DoResync_def statuscheck_Register_def NewProtoWrapperWithSerializer_def

lemmas concrete_defs = started_world_def degraded_world_def env_found_def env_absent_def
  new_world_def new_Plugin_def client_ok_def client_fails_def dflt_cfg_def

subsection \<open>Put options\<close>

text \<open>
  C9: \<open>WithTTL\<close> is a pure value builder. For every duration \<open>d\<close> the pointer it
  returns is not nil and points to an option whose \<open>TTL\<close> is exactly \<open>d\<close>; the
  cell is a new one, and every object that existed before is where it was, unchanged.
\<close>

theorem WithTTL_pure:
  "fst (WithTTL d h) \<noteq> NilPtr \<and>
   deref (snd (WithTTL d h)) (fst (WithTTL d h)) = Some \<lparr>TTL = d\<rparr> \<and>
   deref h (fst (WithTTL d h)) = None \<and>
   snd (WithTTL d h) = h @ [\<lparr>TTL = d\<rparr>] \<and>
   take (length h) (snd (WithTTL d h)) = h"
  by (simp add: WithTTL_def)

theorem WithTTL_pure_witness:
  "fst (WithTTL 5000000000 [\<lparr>TTL = 7\<rparr>]) = Ptr 1 \<and>
   deref (snd (WithTTL 5000000000 [\<lparr>TTL = 7\<rparr>])) (Ptr 1) = Some \<lparr>TTL = 5000000000\<rparr> \<and>
   deref (snd (WithTTL 5000000000 [\<lparr>TTL = 7\<rparr>])) (Ptr 0) = Some \<lparr>TTL = 7\<rparr>"
  using WithTTL_pure [of 5000000000 "[\<lparr>TTL = 7\<rparr>]"]
  by (simp add: WithTTL_def)

subsection \<open>Client configuration\<close>

text \<open>
  C8: for every \<open>Config\<close>, \<open>ConfigToClient\<close> returns a nil error and a client
  configuration whose address is the backend default when \<open>cfg.Address\<close> is the
  empty string, and \<open>cfg.Address\<close> otherwise.
\<close>

theorem ConfigToClient_address:
  "\<exists>c. ConfigToClient dflt (Some cfg) = Return (c, None) \<and>
       api_Address c = (if Address cfg = '''' then api_Address dflt else Address cfg)"
  by (simp add: ConfigToClient_def)

theorem ConfigToClient_address_witness:
  "ConfigToClient dflt_cfg (Some \<lparr>Address = '''', ReconnectResync = True\<rparr>) = Return (dflt_cfg, None) \<and>
   (\<exists>c. ConfigToClient dflt_cfg (Some \<lparr>Address = ''10.0.0.7:8500'', ReconnectResync = True\<rparr>)
          = Return (c, None) \<and>
        api_Address c = ''10.0.0.7:8500'')"
  using ConfigToClient_address [of dflt_cfg "\<lparr>Address = ''10.0.0.7:8500'', ReconnectResync = True\<rparr>"]
  by (simp add: ConfigToClient_def)

subsection \<open>Health probe\<close>

text \<open>
  C2: when the read of the sentinel key fails with an error \<open>e\<close>, the probe records
  \<open>e\<close> in \<open>lastConnErr\<close>, sets \<open>connected\<close> to false, changes nothing else, and
  returns \<open>(Error, e)\<close> to the health aggregator.
\<close>

theorem probe_failure:
  "probe (Some e) w =
     (w\<lparr>plugin := (plugin w)\<lparr>lastConnErr := Some e, connected := False\<rparr>\<rparr>,
      statuscheck_Error, Some e) \<and>
   lastConnErr (plugin (fst (probe (Some e) w))) = Some e \<and>
   \<not> Connected (fst (probe (Some e) w)) \<and>
   snd (probe (Some e) w) = (statuscheck_Error, Some e)"
  by (simp add: probe_def Connected_def)

theorem probe_failure_witness:
  "Connected (started_world None) \<and>
   lastConnErr (plugin (fst (probe (Some (GoError ''timeout'')) (started_world None))))
     = Some (GoError ''timeout'') \<and>
   \<not> Connected (fst (probe (Some (GoError ''timeout'')) (started_world None))) \<and>
   snd (probe (Some (GoError ''timeout'')) (started_world None))
     = (statuscheck_Error, Some (GoError ''timeout''))"
proof -
  have a: "Connected (started_world None)"
    by (simp add: concrete_defs Init_def world_defs Let_def Connected_def)
  show ?thesis
    using a probe_failure [of "GoError ''timeout''" "started_world None"]
    by (simp add: Connected_def)
qed

text \<open>
  C1, as amended: when the read of the sentinel key succeeds, resync-after-reconnect is
  enabled, a previous probe failure is recorded (\<open>lastConnErr\<close> is not nil) and the
  \<open>Resync\<close> dependency is injected (not nil), the resync trigger is invoked exactly
  once, \<open>lastConnErr\<close> is cleared, the state becomes connected, and \<open>OK\<close> is
  reported to the health aggregator.
\<close>

theorem probe_success_resync:
  assumes "reconnectResync (plugin w)" and "lastConnErr (plugin w) \<noteq> None"
    and "Resync (plugin w) \<noteq> None"
  shows "resync_calls (fst (probe None w)) = resync_calls w + 1 \<and>
         lastConnErr (plugin (fst (probe None w))) = None \<and>
         Connected (fst (probe None w)) \<and>
         snd (probe None w) = (statuscheck_OK, None)"
  using assms by (auto simp: probe_def Connected_def Let_def world_defs)

theorem probe_success_resync_witness:
  "reconnectResync (plugin (degraded_world (Some ResyncPlugin))) \<and>
   lastConnErr (plugin (degraded_world (Some ResyncPlugin))) = Some (GoError ''timeout'') \<and>
   Resync (plugin (degraded_world (Some ResyncPlugin))) = Some ResyncPlugin \<and>
   resync_calls (degraded_world (Some ResyncPlugin)) = 0 \<and>
   resync_calls (fst (probe None (degraded_world (Some ResyncPlugin)))) = 1 \<and>
   lastConnErr (plugin (fst (probe None (degraded_world (Some ResyncPlugin))))) = None \<and>
   Connected (fst (probe None (degraded_world (Some ResyncPlugin)))) \<and>
   snd (probe None (degraded_world (Some ResyncPlugin))) = (statuscheck_OK, None)"
proof -
  let ?w = "degraded_world (Some ResyncPlugin)"
  have h1: "reconnectResync (plugin ?w)"
    by (simp add: concrete_defs Init_def probe_def world_defs Let_def)
  have h4: "lastConnErr (plugin ?w) = Some (GoError ''timeout'')"
    by (simp add: concrete_defs Init_def probe_def world_defs Let_def)
  have h5: "Resync (plugin ?w) = Some ResyncPlugin"
    by (simp add: concrete_defs Init_def probe_def world_defs Let_def)
  have h6: "resync_calls ?w = 0"
    by (simp add: concrete_defs Init_def probe_def world_defs Let_def)
  have h2: "lastConnErr (plugin ?w) \<noteq> None"
    using h4 by simp
  have h3: "Resync (plugin ?w) \<noteq> None"
    using h5 by simp
  show ?thesis
    using probe_success_resync [OF h1 h2 h3] h1 h4 h5 h6 by simp
qed

text \<open>
  Without the \<open>Resync\<close> dependency the statement fails. After a successful
  \<open>Init\<close> with resync-after-reconnect enabled and one failed probe, the next probe
  succeeds, with \<open>lastConnErr\<close> recorded: the resync trigger is not invoked and
  \<open>lastConnErr\<close> keeps the old error.
\<close>

theorem probe_success_resync_counterexample:
  "reconnectResync (plugin (degraded_world None)) \<and>
   lastConnErr (plugin (degraded_world None)) = Some (GoError ''timeout'') \<and>
   \<not> (resync_calls (fst (probe None (degraded_world None))) = resync_calls (degraded_world None) + 1) \<and>
   \<not> (lastConnErr (plugin (fst (probe None (degraded_world None)))) = None)"
  by (simp add: concrete_defs Init_def probe_def world_defs Let_def)

subsection \<open>Initialisation\<close>

text \<open>
  The branch of \<open>Init\<close> for a nil \<open>cfg\<close> is never taken: \<open>getConfig\<close> returns a
  nil configuration only with an error or with \<open>disabled\<close> set, and \<open>Init\<close> returns
  on both.
\<close>

lemma Init_never_panics: "snd (Init env w) \<noteq> Panic"
  by (simp add: Init_def world_defs Let_def
        split: prod.splits option.splits outcome.splits if_splits)

text \<open>
  C3: if the configuration lookup returns no error and finds no configuration,
  \<open>Init\<close> sets the plugin disabled (\<open>Disabled()\<close> is true), returns a nil error and
  stops: \<open>NewClient\<close> is not called and the client field is as before, \<open>connected\<close>
  is as before (false for a plugin that is not connected yet), and no health probe is
  registered.
\<close>

theorem Init_config_absent:
  assumes "gv_err (PluginConfig_GetValue env) = None"
    and "\<not> gv_found (PluginConfig_GetValue env)"
  shows "snd (Init env w) = Return None \<and>
         Disabled (fst (Init env w)) \<and>
         client (plugin (fst (Init env w))) = client (plugin w) \<and>
         NewClient_calls (fst (Init env w)) = NewClient_calls w \<and>
         Connected (fst (Init env w)) = Connected w \<and>
         registered (fst (Init env w)) = registered w"
  using assms
  by (simp add: Init_def world_defs Let_def Disabled_def Connected_def)

theorem Init_config_absent_witness:
  "gv_err (PluginConfig_GetValue env_absent) = None \<and>
   \<not> gv_found (PluginConfig_GetValue env_absent) \<and>
   snd (Init env_absent (new_world (new_Plugin ''consul'' (Some StatusCheckAgent) None))) = Return None \<and>
   Disabled (fst (Init env_absent (new_world (new_Plugin ''consul'' (Some StatusCheckAgent) None)))) \<and>
   client (plugin (fst (Init env_absent (new_world (new_Plugin ''consul'' (Some StatusCheckAgent) None))))) = None \<and>
   NewClient_calls (fst (Init env_absent (new_world (new_Plugin ''consul'' (Some StatusCheckAgent) None)))) = 0 \<and>
   \<not> Connected (fst (Init env_absent (new_world (new_Plugin ''consul'' (Some StatusCheckAgent) None)))) \<and>
   registered (fst (Init env_absent (new_world (new_Plugin ''consul'' (Some StatusCheckAgent) None)))) = []"
proof -
  have h1: "gv_err (PluginConfig_GetValue env_absent) = None"
    by (simp add: env_absent_def)
  have h2: "\<not> gv_found (PluginConfig_GetValue env_absent)"
    by (simp add: env_absent_def)
  show ?thesis
    using Init_config_absent [OF h1 h2, of "new_world (new_Plugin ''consul'' (Some StatusCheckAgent) None)"]
      h1 h2
    by (simp add: new_world_def new_Plugin_def Connected_def)
qed

text \<open>
  C4: if \<open>Init\<close> reaches the creation of the backend client (the configuration is
  found without error and the plugin is not disabled) and \<open>NewClient\<close> fails with an
  error \<open>e\<close> on the client configuration, \<open>Init\<close> returns \<open>e\<close> to its caller, and
  the plugin is not started in part: it is not marked connected, no serialization
  wrapper is set and no health probe is registered.
\<close>

theorem Init_client_failure:
  assumes "gv_err (PluginConfig_GetValue env) = None"
    and "gv_found (PluginConfig_GetValue env)"
    and "\<not> disabled (plugin w)"
    and "ConfigToClient (api_DefaultConfig env) (Some (gv_cfg (PluginConfig_GetValue env)))
           = Return (clientCfg, cerr)"
    and "snd (NewClient env clientCfg) = Some e"
  shows "snd (Init env w) = Return (Some e) \<and>
         Connected (fst (Init env w)) = Connected w \<and>
         protoWrapper (plugin (fst (Init env w))) = protoWrapper (plugin w) \<and>
         registered (fst (Init env w)) = registered w"
  using assms
  by (auto simp: Init_def world_defs Let_def Connected_def split: prod.splits if_splits)

theorem Init_client_failure_witness:
  "snd (Init (env_found True client_fails) (new_world (new_Plugin ''consul'' (Some StatusCheckAgent) None)))
     = Return (Some (GoError ''connection refused'')) \<and>
   \<not> Connected (fst (Init (env_found True client_fails) (new_world (new_Plugin ''consul'' (Some StatusCheckAgent) None)))) \<and>
   protoWrapper (plugin (fst (Init (env_found True client_fails) (new_world (new_Plugin ''consul'' (Some StatusCheckAgent) None))))) = None \<and>
   registered (fst (Init (env_found True client_fails) (new_world (new_Plugin ''consul'' (Some StatusCheckAgent) None)))) = []"
proof -
  let ?env = "env_found True client_fails"
  let ?w = "new_world (new_Plugin ''consul'' (Some StatusCheckAgent) None)"
  have h1: "gv_err (PluginConfig_GetValue ?env) = None"
    by (simp add: env_found_def)
  have h2: "gv_found (PluginConfig_GetValue ?env)"
    by (simp add: env_found_def)
  have h3: "\<not> disabled (plugin ?w)"
    by (simp add: new_world_def new_Plugin_def)
  have h4: "ConfigToClient (api_DefaultConfig ?env) (Some (gv_cfg (PluginConfig_GetValue ?env)))
              = Return (dflt_cfg\<lparr>api_Address := ''10.0.0.7:8500''\<rparr>, None)"
    by (simp add: env_found_def ConfigToClient_def)
  have h5: "snd (NewClient ?env (dflt_cfg\<lparr>api_Address := ''10.0.0.7:8500''\<rparr>))
              = Some (GoError ''connection refused'')"
    by (simp add: env_found_def client_fails_def)
  show ?thesis
    using Init_client_failure [OF h1 h2 h3 h4 h5]
    by (simp add: new_world_def new_Plugin_def Connected_def)
qed

subsection \<open>What the run-time operations leave alone\<close>

lemma step_disabled:
  "step a w = Return w' \<Longrightarrow> disabled (plugin w') = disabled (plugin w)"
  by (cases a)
     (auto simp: probe_def DoResync_def Close_def safeclose_Close_def NewBroker_def
        NewWatcher_def world_defs Let_def
        split: option.splits if_splits outcome.splits closable.splits)



lemma run_disabled: "disabled (plugin (run ops w)) = disabled (plugin w)"
proof (induction ops arbitrary: w)
  case Nil
  show ?case by simp
next
  case (Cons a ops)
  show ?case
  proof (cases "step a w")
    case Panic
    then show ?thesis by simp
  next
    case (Return w')
    with Cons.IH [of w'] step_disabled [OF Return] show ?thesis by simp
  qed
qed




text \<open>
  C7: once \<open>Init\<close> has completed, the disabled flag never changes again. Whatever
  sequence of health probes, \<open>Close\<close>, \<open>DoResync\<close>, broker and watcher creations
  and accessor calls runs, \<open>Disabled()\<close> returns afterwards what it returned
  before; so it does after any \<open>Init\<close>.
\<close>

theorem disabled_fixed_at_runtime:
  "Disabled (run ops w) = Disabled w \<and>
   Disabled (run ops (fst (Init env w0))) = Disabled (fst (Init env w0))"
  by (simp add: Disabled_def run_disabled)

theorem disabled_fixed_at_runtime_witness:
  "Disabled (run [OpProbe (Some (GoError ''timeout'')), OpProbe None, OpDoResync,
                  OpNewBroker ''/vnf-agent/'', OpNewWatcher ''/vnf-agent/'', OpClose, OpClose]
               (fst (Init env_absent
                  (new_world (new_Plugin ''consul'' (Some StatusCheckAgent) (Some ResyncPlugin)))))) \<and>
   \<not> Disabled (run [OpProbe (Some (GoError ''timeout'')), OpProbe None, OpDoResync,
                  OpNewBroker ''/vnf-agent/'', OpNewWatcher ''/vnf-agent/'', OpClose, OpClose]
               (started_world (Some ResyncPlugin)))"
proof -
  have a: "Disabled (fst (Init env_absent
             (new_world (new_Plugin ''consul'' (Some StatusCheckAgent) (Some ResyncPlugin)))))"
    by (simp add: concrete_defs Init_def world_defs Let_def Disabled_def)
  have b: "\<not> Disabled (started_world (Some ResyncPlugin))"
    by (simp add: concrete_defs Init_def world_defs Let_def Disabled_def)
  show ?thesis
    using a b
      disabled_fixed_at_runtime
        [of "[OpProbe (Some (GoError ''timeout'')), OpProbe None, OpDoResync,
              OpNewBroker ''/vnf-agent/'', OpNewWatcher ''/vnf-agent/'', OpClose, OpClose]"
            "started_world (Some ResyncPlugin)" env_absent
            "new_world (new_Plugin ''consul'' (Some StatusCheckAgent) (Some ResyncPlugin))"]
    by simp
qed

subsection \<open>Post-init notification\<close>

lemma Init_delivered_old:
  "c \<noteq> next_chan w \<Longrightarrow> delivered (chans (fst (Init env w)) c) = delivered (chans w c)"
  by (auto simp: Init_def world_defs Let_def
        split: prod.splits option.splits outcome.splits if_splits)




subsection \<open>Shutdown\<close>

text \<open>
  C6, as amended: calling \<open>Close\<close> twice in succession returns a nil error on both
  calls and neither call panics. \<open>Close\<close> releases no backend connection: after each
  call the client, like every other field of the plugin, is as it was. The second call
  leaves every channel as the first call left it, so nothing is released twice.
\<close>

theorem Close_twice:
  "snd (Close w) = Return None \<and>
   snd (Close (fst (Close w))) = Return None \<and>
   client (plugin (fst (Close w))) = client (plugin w) \<and>
   plugin (fst (Close w)) = plugin w \<and>
   plugin (fst (Close (fst (Close w)))) = plugin w \<and>
   chans (fst (Close (fst (Close w)))) = chans (fst (Close w))"
  by (simp add: Close_def safeclose_Close_def log_msg_def
        split: option.splits closable.splits recv_chan.splits)

theorem Close_twice_witness:
  "snd (Close (started_world None)) = Return None \<and>
   snd (Close (fst (Close (started_world None)))) = Return None \<and>
   client (plugin (fst (Close (fst (Close (started_world None))))))
     = Some \<lparr>client_config = dflt_cfg\<lparr>api_Address := ''10.0.0.7:8500''\<rparr>\<rparr>"
proof -
  have a: "client (plugin (started_world None))
             = Some \<lparr>client_config = dflt_cfg\<lparr>api_Address := ''10.0.0.7:8500''\<rparr>\<rparr>"
    by (simp add: concrete_defs Init_def world_defs Let_def)
  show ?thesis
    using a Close_twice [of "started_world None"] by simp
qed

text \<open>
  The claim that shutdown releases the notification channel and the connection
  resources fails. After \<open>Init\<close> has connected the plugin, a call of \<open>Close\<close>
  returns nil, and the notification channel is still open and the client still held;
  so after a second call. Each call has only reported the failed close in the log.
\<close>

theorem Close_twice_counterexample:
  "GetInitNotificationChan (started_world None) = Some (RecvChan 0) \<and>
   client (plugin (started_world None)) \<noteq> None \<and>
   snd (Close (started_world None)) = Return None \<and>
   \<not> closed (chans (fst (Close (started_world None))) 0) \<and>
   client (plugin (fst (Close (started_world None)))) = client (plugin (started_world None)) \<and>
   \<not> closed (chans (fst (Close (fst (Close (started_world None))))) 0) \<and>
   client (plugin (fst (Close (fst (Close (started_world None))))))
     = client (plugin (started_world None)) \<and>
   logged (fst (Close (fst (Close (started_world None))))) =
     logged (started_world None) @
       [(Err, ''Recovered in safeclose: close of receive-only channel''),
        (Err, ''Recovered in safeclose: close of receive-only channel'')]"
  by (simp add: concrete_defs Init_def world_defs Let_def Close_def safeclose_Close_def
        GetInitNotificationChan_def)

subsection \<open>Resync on demand\<close>

text \<open>
  C10: \<open>Plugin.DoResync\<close> uses the \<open>Resync\<close> dependency with no test: it panics
  exactly when \<open>Resync\<close> is nil, and with a \<open>Resync\<close> injected it returns after
  invoking the trigger. The health probe tests for a nil \<open>Resync\<close>: with \<open>Resync\<close>
  nil a successful probe reports \<open>OK\<close>, invokes no resync, and, where a resync was
  due, only logs the announcement and a warning.
\<close>

theorem DoResync_unguarded:
  "(DoResync w = Panic) = (Resync (plugin w) = None) \<and>
   (\<forall>r. Resync (plugin w) = Some r \<longrightarrow> DoResync w = Return (resync_DoResync r w)) \<and>
   (Resync (plugin w) = None \<longrightarrow>
      snd (probe None w) = (statuscheck_OK, None) \<and>
      resync_calls (fst (probe None w)) = resync_calls w \<and>
      (reconnectResync (plugin w) \<and> lastConnErr (plugin w) \<noteq> None \<longrightarrow>
         logged (fst (probe None w)) =
           logged w @
             [(Info, ''Starting resync after Consul reconnect''),
              (Warn, ''Expected resync after Consul reconnect could not start beacuse of missing Resync plugin'')]))"
  by (auto simp: DoResync_def probe_def world_defs Let_def split: option.splits)

theorem DoResync_unguarded_witness:
  "DoResync (degraded_world None) = Panic \<and>
   snd (probe None (degraded_world None)) = (statuscheck_OK, None) \<and>
   resync_calls (fst (probe None (degraded_world None))) = resync_calls (degraded_world None) \<and>
   logged (fst (probe None (degraded_world None))) =
     logged (degraded_world None) @
       [(Info, ''Starting resync after Consul reconnect''),
        (Warn, ''Expected resync after Consul reconnect could not start beacuse of missing Resync plugin'')] \<and>
   DoResync (degraded_world (Some ResyncPlugin)) =
     Return (resync_DoResync ResyncPlugin (degraded_world (Some ResyncPlugin)))"
proof -
  have a: "Resync (plugin (degraded_world None)) = None"
    by (simp add: concrete_defs Init_def probe_def world_defs Let_def)
  have b: "reconnectResync (plugin (degraded_world None))"
    by (simp add: concrete_defs Init_def probe_def world_defs Let_def)
  have c: "lastConnErr (plugin (degraded_world None)) \<noteq> None"
    by (simp add: concrete_defs Init_def probe_def world_defs Let_def)
  have d: "Resync (plugin (degraded_world (Some ResyncPlugin))) = Some ResyncPlugin"
    by (simp add: concrete_defs Init_def probe_def world_defs Let_def)
  show ?thesis
    using DoResync_unguarded [of "degraded_world None"]
      DoResync_unguarded [of "degraded_world (Some ResyncPlugin)"] a b c d
    by simp
qed

end
